theory Spec2Isabelle
  imports Main "HOL-Library.AList" "HOL-Library.Sublist"
begin

section \<open>Python values, dictionaries and exceptions\<close>

text \<open>
  The values that occur in token payloads and in documents of the \<open>users\<close> collection.
  A \<open>datetime\<close> is the number of microseconds since the epoch (UTC), a \<open>timedelta\<close>
  a number of microseconds. Nested lists and dictionaries and floating-point numbers do not
  occur in the code under study and are left out.
\<close>

datatype pyval = PNone | PBool bool | PInt int | PStr string | PDatetime int

text \<open>A Python \<open>dict\<close> with string keys, in insertion order; \<open>d.update({k: v})\<close> is
  \<open>AList.update k v d\<close>, which overwrites in place or appends.\<close>

type_synonym dict = "(string \<times> pyval) list"

definition dict_get :: "dict \<Rightarrow> string \<Rightarrow> pyval \<Rightarrow> pyval" where
  \<comment> \<open>\<open>d.get(k, default)\<close>\<close>
  "dict_get d k dflt = (case map_of d k of None \<Rightarrow> dflt | Some v \<Rightarrow> v)"

fun truthy :: "pyval \<Rightarrow> bool" where
  \<comment> \<open>Python truth value testing, as used by \<open>not x\<close> and \<open>if x\<close>\<close>
  "truthy PNone = False"
| "truthy (PBool b) = b"
| "truthy (PInt i) = (i \<noteq> 0)"
| "truthy (PStr s) = (s \<noteq> [])"
| "truthy (PDatetime t) = True"

definition opt_str :: "string option \<Rightarrow> pyval" where
  \<comment> \<open>an \<open>Optional[str]\<close> as a value\<close>
  "opt_str x = (case x of None \<Rightarrow> PNone | Some s \<Rightarrow> PStr s)"

text \<open>
  Exceptions are values. \<open>HTTPException status detail headers\<close> is FastAPI's exception.
  \<open>Jose e\<close> is python-jose's \<open>JWTError\<close> (\<open>e = JWTError\<close>) or one of its two subclasses;
  \<open>except JWTError\<close> catches exactly the exceptions of this form. The others are the Python
  exceptions that can escape the functions modelled here, each standing for its class and
  the subclasses the libraries raise (\<open>ValueError\<close> also for passlib's
  \<open>MalformedHashError\<close>, \<open>MissingDigestError\<close>, \<open>PasswordSizeError\<close> and
  \<open>NullPasswordError\<close>); \<open>UnknownHashError\<close> and \<open>CryptBackendError\<close> are passlib's,
  \<open>ValidationError\<close> is pydantic's, \<open>DuplicateKeyError\<close> pymongo's.
\<close>

datatype jwt_error = JWTError | ExpiredSignatureError | JWTClaimsError

datatype error =
    HTTPException nat string "(string \<times> string) list"
  | Jose jwt_error
  | ValidationError
  | TypeError
  | ValueError
  | KeyError
  | AttributeError
  | UnknownHashError
  | CryptBackendError
  | DuplicateKeyError

definition HTTP_400_BAD_REQUEST :: nat where "HTTP_400_BAD_REQUEST = 400"
definition HTTP_401_UNAUTHORIZED :: nat where "HTTP_401_UNAUTHORIZED = 401"
definition HTTP_403_FORBIDDEN :: nat where "HTTP_403_FORBIDDEN = 403"
definition HTTP_503_SERVICE_UNAVAILABLE :: nat where "HTTP_503_SERVICE_UNAVAILABLE = 503"

fun status_code :: "error \<Rightarrow> nat option" where
  "status_code (HTTPException s d h) = Some s"
| "status_code e = None"

fun detail :: "error \<Rightarrow> string option" where
  "detail (HTTPException s d h) = Some d"
| "detail e = None"


section \<open>The libraries the code calls\<close>

subsection \<open>Python's \<open>int\<close>\<close>

text \<open>
  \<open>int(x)\<close> as python-jose applies it to a claim: a \<open>TypeError\<close> for \<open>None\<close>, zero or one
  for a boolean, and for a string the decimal number it spells (surrounding white space, a
  sign and single underscores between digits are allowed, and at most 4300 digits, the
  interpreter's default limit), a \<open>ValueError\<close> otherwise. Strings are sequences of bytes;
  digits and white space outside ASCII are not modelled.
\<close>

definition py_isspace :: "char \<Rightarrow> bool" where
  "py_isspace c = (c \<in> set [CHR 0x09, CHR 0x0A, CHR 0x0B, CHR 0x0C, CHR 0x0D, CHR 0x20])"

definition py_strip :: "string \<Rightarrow> string" where
  "py_strip s = rev (dropWhile py_isspace (rev (dropWhile py_isspace s)))"

definition is_digit :: "char \<Rightarrow> bool" where
  "is_digit c = (c \<in> set ''0123456789'')"

definition digit_val :: "char \<Rightarrow> int" where
  "digit_val c = int (length (takeWhile (\<lambda>d. d \<noteq> c) ''0123456789''))"

fun read_digits :: "int \<Rightarrow> string \<Rightarrow> int option" where
  "read_digits acc [] = Some acc"
| "read_digits acc [c] = (if is_digit c then Some (10 * acc + digit_val c) else None)"
| "read_digits acc (c # d # cs) =
     (if is_digit c then read_digits (10 * acc + digit_val c) (d # cs)
      else if c = CHR ''_'' \<and> is_digit d then read_digits acc (d # cs)
      else None)"

definition int_of_digits :: "string \<Rightarrow> int option" where
  "int_of_digits s =
     (case s of
        [] \<Rightarrow> None
      | c # cs \<Rightarrow>
          if is_digit c \<and> length (filter is_digit s) \<le> 4300 then read_digits 0 s else None)"

definition py_int_str :: "string \<Rightarrow> int option" where
  "py_int_str s =
     (case py_strip s of
        [] \<Rightarrow> None
      | c # cs \<Rightarrow>
          if c = CHR ''-'' then map_option uminus (int_of_digits cs)
          else if c = CHR ''+'' then int_of_digits cs
          else int_of_digits (c # cs))"

fun py_int :: "pyval \<Rightarrow> error + int" where
  "py_int PNone = Inl TypeError"
| "py_int (PBool b) = Inr (if b then 1 else 0)"
| "py_int (PInt i) = Inr i"
| "py_int (PStr s) = (case py_int_str s of None \<Rightarrow> Inl ValueError | Some i \<Rightarrow> Inr i)"
| "py_int (PDatetime t) = Inl TypeError"

subsection \<open>Signed tokens (python-jose)\<close>

text \<open>
  The JWT library is not part of the repository. It is modelled symbolically: a token is
  either a signed structure \<open>JWS claims key alg\<close>, recording the claims, the key that signed
  them and the algorithm named in the header, or a string that is no such structure.
  Signatures are perfect: a token verifies under a key exactly when that key signed it.

  \<open>jwt_encode\<close> is \<open>jose.jwt.encode\<close>: a \<open>datetime\<close> under \<open>exp\<close>, \<open>iat\<close> or \<open>nbf\<close>
  becomes the integer number of seconds since the epoch, and the claims must then be
  serialisable as JSON. \<open>jwt_decode\<close> is \<open>jose.jwt.decode(token, key, algorithms)\<close> with
  the library's default options and no audience, issuer, subject or access token given. It
  checks the header's algorithm against the list, then the signature, then the claims in the
  library's order: \<open>iat\<close> converts with \<open>int\<close>; \<open>nbf\<close> converts and is not after the current
  second; \<open>exp\<close> converts and is not before it; \<open>aud\<close> is absent (any audience claim fails
  against the audience \<open>None\<close>); \<open>iss\<close> is not looked at; \<open>sub\<close> and \<open>jti\<close> are strings
  when present; \<open>at_hash\<close> is absent. A failed check is a \<open>JWTError\<close> or one of its
  subclasses, except that the \<open>TypeError\<close> of \<open>int\<close> escapes as it is. The configured
  algorithm is taken to be one the library supports. A structure whose claims are not JSON
  values stands for no token and is malformed.
\<close>

datatype token = JWS dict string string | Opaque string

definition intDate :: "int \<Rightarrow> int" where
  \<comment> \<open>\<open>timegm(dt.utctimetuple())\<close>: whole seconds, the microseconds dropped\<close>
  "intDate t = t div 1000000"

fun time_claim :: "string \<times> pyval \<Rightarrow> string \<times> pyval" where
  "time_claim (k, PDatetime t) =
     (if k = ''exp'' \<or> k = ''iat'' \<or> k = ''nbf'' then (k, PInt (intDate t)) else (k, PDatetime t))"
| "time_claim (k, v) = (k, v)"

fun json_serialisable :: "pyval \<Rightarrow> bool" where
  "json_serialisable (PDatetime t) = False"
| "json_serialisable v = True"

definition json_object :: "dict \<Rightarrow> bool" where
  "json_object claims = list_all (\<lambda>kv. json_serialisable (snd kv)) claims"

definition jwt_encode :: "dict \<Rightarrow> string \<Rightarrow> string \<Rightarrow> error + token" where
  "jwt_encode claims key alg =
     (let cs = map time_claim claims in
      if json_object cs then Inr (JWS cs key alg) else Inl TypeError)"

definition int_claim :: "pyval \<Rightarrow> error + int" where
  \<comment> \<open>\<open>try: int(v) except ValueError: raise JWTClaimsError\<close>\<close>
  "int_claim v =
     (case py_int v of
        Inr i \<Rightarrow> Inr i
      | Inl e \<Rightarrow> if e = ValueError then Inl (Jose JWTClaimsError) else Inl e)"

definition validate_iat :: "dict \<Rightarrow> error option" where
  "validate_iat claims =
     (case map_of claims ''iat'' of
        None \<Rightarrow> None
      | Some v \<Rightarrow> (case int_claim v of Inl e \<Rightarrow> Some e | Inr iat \<Rightarrow> None))"

definition validate_nbf :: "int \<Rightarrow> dict \<Rightarrow> error option" where
  "validate_nbf now claims =
     (case map_of claims ''nbf'' of
        None \<Rightarrow> None
      | Some v \<Rightarrow>
         (case int_claim v of
            Inl e \<Rightarrow> Some e
          | Inr nbf \<Rightarrow> if nbf > intDate now then Some (Jose JWTClaimsError) else None))"

definition validate_exp :: "int \<Rightarrow> dict \<Rightarrow> error option" where
  "validate_exp now claims =
     (case map_of claims ''exp'' of
        None \<Rightarrow> None
      | Some v \<Rightarrow>
         (case int_claim v of
            Inl e \<Rightarrow> Some e
          | Inr exp \<Rightarrow> if exp < intDate now then Some (Jose ExpiredSignatureError) else None))"

definition validate_aud :: "dict \<Rightarrow> error option" where
  "validate_aud claims =
     (case map_of claims ''aud'' of None \<Rightarrow> None | Some v \<Rightarrow> Some (Jose JWTClaimsError))"

definition validate_str :: "string \<Rightarrow> dict \<Rightarrow> error option" where
  \<comment> \<open>the check of \<open>sub\<close> and of \<open>jti\<close>\<close>
  "validate_str k claims =
     (case map_of claims k of
        None \<Rightarrow> None
      | Some (PStr s) \<Rightarrow> None
      | Some _ \<Rightarrow> Some (Jose JWTClaimsError))"

definition validate_at_hash :: "dict \<Rightarrow> error option" where
  "validate_at_hash claims =
     (case map_of claims ''at_hash'' of None \<Rightarrow> None | Some v \<Rightarrow> Some (Jose JWTClaimsError))"

fun first_error :: "error option list \<Rightarrow> error option" where
  "first_error [] = None"
| "first_error (Some e # checks) = Some e"
| "first_error (None # checks) = first_error checks"

definition validate_claims :: "int \<Rightarrow> dict \<Rightarrow> error option" where
  "validate_claims now claims =
     first_error
       [validate_iat claims, validate_nbf now claims, validate_exp now claims,
        validate_aud claims, validate_str ''sub'' claims, validate_str ''jti'' claims,
        validate_at_hash claims]"

definition jwt_decode :: "int \<Rightarrow> token \<Rightarrow> string \<Rightarrow> string list \<Rightarrow> error + dict" where
  "jwt_decode now tok key algorithms =
     (case tok of
        Opaque s \<Rightarrow> Inl (Jose JWTError)
      | JWS claims k alg \<Rightarrow>
          if \<not> json_object claims then Inl (Jose JWTError)
          else if alg \<notin> set algorithms then Inl (Jose JWTError)
          else if k \<noteq> key then Inl (Jose JWTError)
          else (case validate_claims now claims of
                  Some e \<Rightarrow> Inl e
                | None \<Rightarrow> Inr claims))"

subsection \<open>Password hashing (passlib with the bcrypt scheme)\<close>

text \<open>
  \<open>pwd_context = CryptContext(schemes=["bcrypt"], deprecated="auto")\<close>, modelled from the
  library's documentation. A bcrypt hash string is an identifier (\<open>$2b$\<close> for new hashes),
  two digits of cost between 04 and 31 (12 for new hashes), \<open>$\<close>, 22 characters of salt
  and 31 characters of digest, both in the alphabet \<open>bcrypt64_chars\<close>; the padding bits of
  the last character of either part are cleared when a string is read.

  The digest function itself is a parameter, \<open>digest ident cost salt secret\<close>. Three facts
  about bcrypt are built in: it is applied to the first 72 bytes of the secret only, the
  library refuses a secret of more than 4096 bytes or with a NUL byte, and a digest that is
  not 31 characters of the alphabet is a backend error. The salt, which the library draws
  at random, is an argument of \<open>CryptContext_hash\<close>.

  \<open>CryptContext_verify\<close> returns \<open>False\<close> for \<open>None\<close>, raises \<open>UnknownHashError\<close> for a
  string that starts with no bcrypt identifier, and otherwise parses the string, raising
  \<open>ValueError\<close> when it is malformed, and compares digests.
\<close>

type_synonym bcrypt_digest = "string \<Rightarrow> nat \<Rightarrow> string \<Rightarrow> string \<Rightarrow> string"

definition bcrypt_idents :: "string list" where
  "bcrypt_idents = [''$2$'', ''$2a$'', ''$2x$'', ''$2y$'', ''$2b$'']"

definition bcrypt_identify :: "string \<Rightarrow> bool" where
  "bcrypt_identify h = list_ex (\<lambda>ident. prefix ident h) bcrypt_idents"

definition bcrypt64_chars :: string where
  "bcrypt64_chars = ''./ABCDEFGHIJKLMNOPQRSTUVWXYZabcdefghijklmnopqrstuvwxyz0123456789''"

definition bcrypt64_index :: "char \<Rightarrow> nat" where
  "bcrypt64_index c = length (takeWhile (\<lambda>d. d \<noteq> c) bcrypt64_chars)"

definition bcrypt64_string :: "nat \<Rightarrow> string \<Rightarrow> bool" where
  \<comment> \<open>\<open>n\<close> characters of the alphabet\<close>
  "bcrypt64_string n s = (length s = n \<and> list_all (\<lambda>c. c \<in> set bcrypt64_chars) s)"

definition repair_unused :: "nat \<Rightarrow> string \<Rightarrow> string" where
  \<comment> \<open>clears the padding bits of the last character: its index is rounded down to a
      multiple of \<open>m\<close> (16 for a salt, 4 for a digest)\<close>
  "repair_unused m s =
     (case rev s of
        [] \<Rightarrow> []
      | c # cs \<Rightarrow> rev cs @ [bcrypt64_chars ! (m * (bcrypt64_index c div m))])"

definition parse_ident :: "string \<Rightarrow> (string \<times> string) option" where
  "parse_ident h =
     (case find (\<lambda>ident. prefix ident h) bcrypt_idents of
        None \<Rightarrow> None
      | Some ident \<Rightarrow> Some (ident, drop (length ident) h))"

definition split_dollar :: "string \<Rightarrow> (string \<times> string) option" where
  \<comment> \<open>\<open>a, b = tail.split("$")\<close>, which needs exactly one \<open>$\<close>\<close>
  "split_dollar tail =
     (case dropWhile (\<lambda>c. c \<noteq> CHR ''$'') tail of
        [] \<Rightarrow> None
      | c # b \<Rightarrow>
          if CHR ''$'' \<in> set b then None
          else Some (takeWhile (\<lambda>c. c \<noteq> CHR ''$'') tail, b))"

definition parse_rounds :: "string \<Rightarrow> nat option" where
  \<comment> \<open>the cost field: two digits, and between 4 and 31\<close>
  "parse_rounds r =
     (case r of
        [a, b] \<Rightarrow>
          if is_digit a \<and> is_digit b \<and> 4 \<le> 10 * digit_val a + digit_val b
             \<and> 10 * digit_val a + digit_val b \<le> 31
          then Some (nat (10 * digit_val a + digit_val b)) else None
      | _ \<Rightarrow> None)"

definition bcrypt_from_string :: "string \<Rightarrow> (string \<times> nat \<times> string \<times> string) option" where
  \<comment> \<open>identifier, cost, salt and digest of a well-formed hash string\<close>
  "bcrypt_from_string h =
     (case parse_ident h of
        None \<Rightarrow> None
      | Some (ident, tail) \<Rightarrow>
          if ident = ''$2x$'' then None
          else (case split_dollar tail of
                  None \<Rightarrow> None
                | Some (rounds_str, data) \<Rightarrow>
                   (case parse_rounds rounds_str of
                      None \<Rightarrow> None
                    | Some rounds \<Rightarrow>
                        if bcrypt64_string 22 (take 22 data) \<and> bcrypt64_string 31 (drop 22 data)
                        then Some (ident, rounds, repair_unused 16 (take 22 data),
                                   repair_unused 4 (drop 22 data))
                        else None)))"

definition bcrypt_hash :: "bcrypt_digest \<Rightarrow> string \<Rightarrow> string \<Rightarrow> error + string" where
  "bcrypt_hash digest salt secret =
     (if length secret > 4096 then Inl ValueError
      else if \<not> bcrypt64_string 22 salt then Inl ValueError
      else if CHR 0x00 \<in> set secret then Inl ValueError
      else (let s = repair_unused 16 salt;
                d = digest ''$2b$'' 12 s (take 72 secret)
            in if bcrypt64_string 31 d then Inr (''$2b$12$'' @ s @ d)
               else Inl CryptBackendError))"

definition bcrypt_verify :: "bcrypt_digest \<Rightarrow> string \<Rightarrow> string \<Rightarrow> error + bool" where
  "bcrypt_verify digest secret h =
     (if length secret > 4096 then Inl ValueError
      else (case bcrypt_from_string h of
              None \<Rightarrow> Inl ValueError
            | Some (ident, rounds, salt, chk) \<Rightarrow>
                if CHR 0x00 \<in> set secret then Inl ValueError
                else (let d = digest ident rounds salt (take 72 secret)
                      in if bcrypt64_string 31 d then Inr (d = chk)
                         else Inl CryptBackendError)))"

definition CryptContext_hash :: "bcrypt_digest \<Rightarrow> string \<Rightarrow> string \<Rightarrow> error + string" where
  "CryptContext_hash digest salt secret = bcrypt_hash digest salt secret"

definition CryptContext_verify :: "bcrypt_digest \<Rightarrow> string \<Rightarrow> pyval \<Rightarrow> error + bool" where
  "CryptContext_verify digest secret hash =
     (case hash of
        PNone \<Rightarrow> Inr False
      | PStr h \<Rightarrow>
          if bcrypt_identify h then bcrypt_verify digest secret h
          else Inl UnknownHashError
      | _ \<Rightarrow> Inl TypeError)"


section \<open>Configuration (\<open>config/settings.py\<close>) and the process environment\<close>

record Settings =
  mongodb_url :: string
  jwt_secret_key :: string
  jwt_algorithm :: string
  jwt_expiration_time :: int
  api_v1_str :: string

text \<open>\<open>Settings()\<close> for an environment that sets the secret key and nothing else.\<close>

definition default_settings :: "string \<Rightarrow> Settings" where
  "default_settings secret =
     \<lparr>mongodb_url = '''', jwt_secret_key = secret, jwt_algorithm = ''HS256'',
      jwt_expiration_time = 1440, api_v1_str = ''/api/v1''\<rparr>"

text \<open>
  What a request handler reads from its process: the cached settings, the two environment
  variables \<open>os.getenv\<close> is asked for, the bcrypt digest, and pydantic's validator of
  \<open>EmailStr\<close> (\<open>None\<close> for a string that is no e-mail address, otherwise the normalised
  address).
\<close>

record env =
  settings :: Settings
  ADMIN_EMAIL :: "string option"
  ADMIN_PASSWORD :: "string option"
  pwd_digest :: bcrypt_digest
  validate_email :: "string \<Rightarrow> string option"


section \<open>Data models (\<open>validation/user_models.py\<close>) and the store\<close>

record UserCreate =
  c_email :: string
  c_password :: string
  c_first_name :: string
  c_phone :: string

record UserLogin =
  l_email :: string
  l_password :: string

record UserResponse =
  r_id :: "string option"
  r_email :: string
  r_first_name :: string
  r_phone :: string
  r_created_at :: int
  r_is_admin :: "bool option"

record UserInDB =
  u_id :: "string option"
  u_email :: string
  u_first_name :: string
  u_phone :: string
  u_hashed_password :: string
  u_created_at :: int
  u_is_admin :: "bool option"

record Token =
  access_token :: token
  token_type :: string

record TokenData =
  td_email :: "string option"

text \<open>
  A document as \<open>find_one\<close> returns it: the \<open>_id\<close> the driver assigned on insertion (an
  \<open>ObjectId\<close>, written as its hexadecimal string, which is what \<open>str\<close> gives) and the other
  fields. A dictionary that was never inserted has no \<open>_id\<close>.
\<close>

record document =
  doc_id :: "string option"
  doc_fields :: dict

record database =
  users :: "document list"
  products :: "document list"
  orders :: "document list"
  contact_messages :: "document list"

definition find_one :: "document list \<Rightarrow> string \<Rightarrow> pyval \<Rightarrow> document option" where
  \<comment> \<open>\<open>collection.find_one({k: v})\<close> for a field other than \<open>_id\<close>\<close>
  "find_one coll k v = find (\<lambda>d. map_of (doc_fields d) k = Some v) coll"

definition find_one_by_id :: "document list \<Rightarrow> string \<Rightarrow> document option" where
  \<comment> \<open>\<open>collection.find_one({"_id": oid})\<close>\<close>
  "find_one_by_id coll oid = find (\<lambda>d. doc_id d = Some oid) coll"

definition insert_one :: "document list \<Rightarrow> string \<Rightarrow> dict \<Rightarrow> error + document list" where
  \<comment> \<open>\<open>collection.insert_one(doc)\<close> for a dictionary without \<open>_id\<close>; \<open>oid\<close> is the
      identifier the driver generates\<close>
  "insert_one coll oid doc =
     (if list_ex (\<lambda>d. doc_id d = Some oid) coll then Inl DuplicateKeyError
      else Inr (coll @ [\<lparr>doc_id = Some oid, doc_fields = doc\<rparr>]))"

text \<open>
  Pydantic's validation of the declared fields, \<open>cls(**data)\<close>. A \<open>str\<close> field takes a
  string only, \<open>EmailStr\<close> a string the e-mail validator accepts, \<open>created_at\<close> falls back to
  its default factory \<open>datetime.utcnow\<close>, \<open>is_admin\<close> to \<open>False\<close>; fields that are not
  declared are ignored. The coercions pydantic applies to values of other types (a
  timestamp given as a number, a boolean given as \<open>0\<close> or \<open>1\<close>) are not modelled: such
  values are rejected here, and no document written by \<open>register_user\<close> holds one.
\<close>

definition field_str :: "dict \<Rightarrow> string \<Rightarrow> string option" where
  "field_str data k = (case map_of data k of Some (PStr s) \<Rightarrow> Some s | _ \<Rightarrow> None)"

definition field_email :: "env \<Rightarrow> dict \<Rightarrow> string option" where
  "field_email E data = Option.bind (field_str data ''email'') (validate_email E)"

definition field_created_at :: "int \<Rightarrow> dict \<Rightarrow> int option" where
  "field_created_at now data =
     (case map_of data ''created_at'' of
        None \<Rightarrow> Some now
      | Some (PDatetime t) \<Rightarrow> Some t
      | Some _ \<Rightarrow> None)"

definition field_is_admin :: "dict \<Rightarrow> bool option option" where
  "field_is_admin data =
     (case map_of data ''is_admin'' of
        None \<Rightarrow> Some (Some False)
      | Some PNone \<Rightarrow> Some None
      | Some (PBool b) \<Rightarrow> Some (Some b)
      | Some _ \<Rightarrow> None)"

definition UserInDB_from_mongo :: "env \<Rightarrow> int \<Rightarrow> document \<Rightarrow> error + UserInDB" where
  "UserInDB_from_mongo E now data =
     (case (field_email E (doc_fields data), field_str (doc_fields data) ''first_name'',
            field_str (doc_fields data) ''phone'', field_str (doc_fields data) ''hashed_password'',
            field_created_at now (doc_fields data), field_is_admin (doc_fields data)) of
        (Some e, Some f, Some p, Some h, Some c, Some a) \<Rightarrow>
          Inr \<lparr>u_id = doc_id data, u_email = e, u_first_name = f, u_phone = p,
               u_hashed_password = h, u_created_at = c, u_is_admin = a\<rparr>
      | _ \<Rightarrow> Inl ValidationError)"

definition UserResponse_from_mongo :: "env \<Rightarrow> int \<Rightarrow> document \<Rightarrow> error + UserResponse" where
  "UserResponse_from_mongo E now data =
     (case (field_email E (doc_fields data), field_str (doc_fields data) ''first_name'',
            field_str (doc_fields data) ''phone'',
            field_created_at now (doc_fields data), field_is_admin (doc_fields data)) of
        (Some e, Some f, Some p, Some c, Some a) \<Rightarrow>
          Inr \<lparr>r_id = doc_id data, r_email = e, r_first_name = f, r_phone = p,
               r_created_at = c, r_is_admin = a\<rparr>
      | _ \<Rightarrow> Inl ValidationError)"

text \<open>\<open>config/database.py\<close>: the handle is \<open>None\<close> until a connection was made.\<close>

definition get_database :: "database option \<Rightarrow> error + database" where
  "get_database mongodb =
     (case mongodb of
        None \<Rightarrow> Inl (HTTPException HTTP_503_SERVICE_UNAVAILABLE
          ''Database connection not available. Please check MongoDB configuration.'' [])
      | Some db \<Rightarrow> Inr db)"


section \<open>\<open>utils/auth.py\<close>\<close>

definition verify_password :: "env \<Rightarrow> string \<Rightarrow> pyval \<Rightarrow> error + bool" where
  "verify_password E plain_password hashed_password =
     CryptContext_verify (pwd_digest E) plain_password hashed_password"

definition get_password_hash :: "env \<Rightarrow> string \<Rightarrow> string \<Rightarrow> error + string" where
  \<comment> \<open>\<open>salt\<close> is the salt the library draws for this call\<close>
  "get_password_hash E salt password = CryptContext_hash (pwd_digest E) salt password"

definition timedelta_minutes :: "int \<Rightarrow> int" where
  "timedelta_minutes m = m * 60000000"

definition create_access_token :: "env \<Rightarrow> int \<Rightarrow> dict \<Rightarrow> int option \<Rightarrow> error + token" where
  \<comment> \<open>\<open>now\<close> is \<open>datetime.utcnow()\<close>; \<open>if expires_delta:\<close> holds for a \<open>timedelta\<close> other
      than zero\<close>
  "create_access_token E now data expires_delta =
     (let to_encode = data;
          expire = (case expires_delta of
                      Some d \<Rightarrow> if d \<noteq> 0 then now + d
                                 else now + timedelta_minutes (jwt_expiration_time (settings E))
                    | None \<Rightarrow> now + timedelta_minutes (jwt_expiration_time (settings E)));
          to_encode = AList.update ''exp'' (PDatetime expire) to_encode
      in jwt_encode to_encode (jwt_secret_key (settings E)) (jwt_algorithm (settings E)))"

definition credentials_exception :: error where
  "credentials_exception =
     HTTPException HTTP_401_UNAUTHORIZED ''Could not validate credentials''
       [(''WWW-Authenticate'', ''Bearer'')]"

definition verify_token :: "env \<Rightarrow> int \<Rightarrow> token \<Rightarrow> error + TokenData" where
  "verify_token E now token =
     (case jwt_decode now token (jwt_secret_key (settings E)) [jwt_algorithm (settings E)] of
        Inl (Jose e) \<Rightarrow> Inl credentials_exception
      | Inl e \<Rightarrow> Inl e
      | Inr payload \<Rightarrow>
         (case dict_get payload ''sub'' PNone of
            PNone \<Rightarrow> Inl credentials_exception
          | PStr e \<Rightarrow> Inr \<lparr>td_email = Some e\<rparr>
          | _ \<Rightarrow> Inl ValidationError))"

definition user_not_found :: error where
  "user_not_found =
     HTTPException HTTP_401_UNAUTHORIZED ''User not found'' [(''WWW-Authenticate'', ''Bearer'')]"

definition get_current_user :: "env \<Rightarrow> int \<Rightarrow> token \<Rightarrow> database \<Rightarrow> error + UserInDB" where
  "get_current_user E now token db =
     (case verify_token E now token of
        Inl e \<Rightarrow> Inl e
      | Inr token_data \<Rightarrow>
         (case find_one (users db) ''email'' (opt_str (td_email token_data)) of
            None \<Rightarrow> Inl user_not_found
          | Some user \<Rightarrow>
             (case map_of (doc_fields user) ''email'' of
                None \<Rightarrow> Inl KeyError
              | Some user_email \<Rightarrow>
                 (let admin_email = ADMIN_EMAIL E;
                      is_admin = (user_email = opt_str admin_email)
                  in case UserInDB_from_mongo E now user of
                       Inl e \<Rightarrow> Inl e
                     | Inr user_data \<Rightarrow> Inr (user_data\<lparr>u_is_admin := Some is_admin\<rparr>)))))"

definition verify_admin_credentials :: "env \<Rightarrow> string \<Rightarrow> string \<Rightarrow> bool" where
  "verify_admin_credentials E email password =
     (Some email = ADMIN_EMAIL E \<and> Some password = ADMIN_PASSWORD E)"

definition create_admin_token :: "env \<Rightarrow> int \<Rightarrow> string \<Rightarrow> error + token" where
  "create_admin_token E now email =
     (let token_data = [(''sub'', PStr email), (''is_admin'', PBool True)]
      in create_access_token E now token_data None)"

definition admin_exception :: error where
  "admin_exception =
     HTTPException HTTP_401_UNAUTHORIZED ''Admin access required''
       [(''WWW-Authenticate'', ''Bearer'')]"

definition verify_admin_token :: "env \<Rightarrow> int \<Rightarrow> token \<Rightarrow> error + dict" where
  "verify_admin_token E now token =
     (case jwt_decode now token (jwt_secret_key (settings E)) [jwt_algorithm (settings E)] of
        Inl (Jose e) \<Rightarrow> Inl admin_exception
      | Inl e \<Rightarrow> Inl e
      | Inr payload \<Rightarrow>
         (let email = dict_get payload ''sub'' PNone;
              is_admin = dict_get payload ''is_admin'' (PBool False)
          in if email = PNone \<or> \<not> truthy is_admin then Inl admin_exception
             else Inr [(''email'', email), (''is_admin'', is_admin)]))"

definition get_current_admin :: "env \<Rightarrow> int \<Rightarrow> token \<Rightarrow> error + dict" where
  "get_current_admin E now token = verify_admin_token E now token"


section \<open>\<open>routes/auth.py\<close>\<close>

text \<open>
  \<open>register_user\<close> is the one operation here that writes to the \<open>users\<close> collection, so
  it returns the database it leaves behind together with its outcome. \<open>now\<close> is the clock,
  \<open>salt\<close> the salt of the password hash and \<open>oid\<close> the identifier generated for the new
  document.
\<close>

definition register_user ::
  "env \<Rightarrow> int \<Rightarrow> string \<Rightarrow> string \<Rightarrow> UserCreate \<Rightarrow> database \<Rightarrow> database \<times> (error + UserResponse)" where
  "register_user E now salt oid user db =
     (case find_one (users db) ''email'' (PStr (c_email user)) of
        Some existing_user \<Rightarrow>
          (db, Inl (HTTPException HTTP_400_BAD_REQUEST ''Email already registered'' []))
      | None \<Rightarrow>
         (case get_password_hash E salt (c_password user) of
            Inl e \<Rightarrow> (db, Inl e)
          | Inr hashed \<Rightarrow>
             (let user_doc =
                    [(''email'', PStr (c_email user)),
                     (''hashed_password'', PStr hashed),
                     (''first_name'', PStr (c_first_name user)),
                     (''phone'', PStr (c_phone user)),
                     (''created_at'', PDatetime now)]
              in case insert_one (users db) oid user_doc of
                   Inl e \<Rightarrow> (db, Inl e)
                 | Inr inserted \<Rightarrow>
                    (let db' = db\<lparr>users := inserted\<rparr>
                     in case find_one_by_id (users db') oid of
                          None \<Rightarrow> (db', Inl AttributeError)
                        | Some created_user \<Rightarrow>
                            (db', UserResponse_from_mongo E now created_user)))))"

definition incorrect_credentials :: error where
  "incorrect_credentials =
     HTTPException HTTP_401_UNAUTHORIZED ''Incorrect email or password''
       [(''WWW-Authenticate'', ''Bearer'')]"

definition login_user :: "env \<Rightarrow> int \<Rightarrow> UserLogin \<Rightarrow> database \<Rightarrow> error + Token" where
  "login_user E now user_credentials db =
     (case find_one (users db) ''email'' (PStr (l_email user_credentials)) of
        None \<Rightarrow> Inl incorrect_credentials
      | Some user \<Rightarrow>
         (case map_of (doc_fields user) ''hashed_password'' of
            None \<Rightarrow> Inl KeyError
          | Some stored_hash \<Rightarrow>
             (case verify_password E (l_password user_credentials) stored_hash of
                Inl e \<Rightarrow> Inl e
              | Inr ok \<Rightarrow>
                 if \<not> ok then Inl incorrect_credentials
                 else (case map_of (doc_fields user) ''email'' of
                         None \<Rightarrow> Inl KeyError
                       | Some user_email \<Rightarrow>
                          (case create_access_token E now [(''sub'', user_email)] None of
                             Inl e \<Rightarrow> Inl e
                           | Inr tok \<Rightarrow>
                               Inr \<lparr>access_token = tok, token_type = ''bearer''\<rparr>)))))"


section \<open>\<open>routes/admin.py\<close>\<close>

text \<open>
  Each handler receives the principal that \<open>Depends(get_current_user)\<close> resolved, checks
  \<open>current_user.is_admin\<close> and only then computes its statistics. The statistics are
  read-only queries over the database; they are a parameter of the handler.
\<close>

definition is_true :: "bool option \<Rightarrow> bool" where
  \<comment> \<open>the truth value of an \<open>Optional[bool]\<close>\<close>
  "is_true b = (b = Some True)"

definition admin_access_required :: error where
  "admin_access_required = HTTPException HTTP_403_FORBIDDEN ''Admin access required'' []"

definition verify_admin_access :: "UserInDB \<Rightarrow> error + (string \<times> string \<times> bool option)" where
  \<comment> \<open>the result is the triple \<open>message\<close>, \<open>admin_email\<close>, \<open>is_admin\<close>\<close>
  "verify_admin_access current_user =
     (if \<not> is_true (u_is_admin current_user) then Inl admin_access_required
      else Inr (''Admin access verified'', u_email current_user, u_is_admin current_user))"

definition get_dashboard_stats ::
  "(int \<Rightarrow> database \<Rightarrow> error + 'r) \<Rightarrow> int \<Rightarrow> UserInDB \<Rightarrow> database \<Rightarrow> error + 'r" where
  "get_dashboard_stats statistics now current_user db =
     (if \<not> is_true (u_is_admin current_user) then Inl admin_access_required
      else statistics now db)"

definition get_product_stats ::
  "(int \<Rightarrow> database \<Rightarrow> error + 'r) \<Rightarrow> int \<Rightarrow> UserInDB \<Rightarrow> database \<Rightarrow> error + 'r" where
  "get_product_stats statistics now current_user db =
     (if \<not> is_true (u_is_admin current_user) then Inl admin_access_required
      else statistics now db)"

definition get_user_stats ::
  "(int \<Rightarrow> database \<Rightarrow> error + 'r) \<Rightarrow> int \<Rightarrow> UserInDB \<Rightarrow> database \<Rightarrow> error + 'r" where
  "get_user_stats statistics now current_user db =
     (if \<not> is_true (u_is_admin current_user) then Inl admin_access_required
      else statistics now db)"

definition get_analytics_summary ::
  "(int \<Rightarrow> database \<Rightarrow> error + 'r) \<Rightarrow> int \<Rightarrow> UserInDB \<Rightarrow> database \<Rightarrow> error + 'r" where
  "get_analytics_summary statistics now current_user db =
     (if \<not> is_true (u_is_admin current_user) then Inl admin_access_required
      else statistics now db)"

text \<open>
  A request to a handler that declares \<open>Depends(get_current_user)\<close> and
  \<open>Depends(get_database)\<close>: the framework resolves the database handle, then the principal
  from the bearer token, and calls the handler with both; the first exception ends the
  request.
\<close>

definition with_current_user ::
  "env \<Rightarrow> int \<Rightarrow> token \<Rightarrow> database option \<Rightarrow> (UserInDB \<Rightarrow> database \<Rightarrow> error + 'r) \<Rightarrow> error + 'r" where
  "with_current_user E now token mongodb handler =
     (case get_database mongodb of
        Inl e \<Rightarrow> Inl e
      | Inr db \<Rightarrow>
         (case get_current_user E now token db of
            Inl e \<Rightarrow> Inl e
          | Inr current_user \<Rightarrow> handler current_user db))"

definition GET_admin_dashboard ::
  "env \<Rightarrow> (int \<Rightarrow> database \<Rightarrow> error + 'r) \<Rightarrow> int \<Rightarrow> token \<Rightarrow> database option \<Rightarrow> error + 'r" where
  "GET_admin_dashboard E statistics now token mongodb =
     with_current_user E now token mongodb (get_dashboard_stats statistics now)"

definition GET_admin_verify ::
  "env \<Rightarrow> int \<Rightarrow> token \<Rightarrow> database option \<Rightarrow> error + (string \<times> string \<times> bool option)" where
  "GET_admin_verify E now token mongodb =
     with_current_user E now token mongodb (\<lambda>current_user db. verify_admin_access current_user)"


section \<open>Store states the authentication operations can reach\<close>

text \<open>
  Of the operations above only \<open>register_user\<close> changes the \<open>users\<close> collection;
  \<open>login_user\<close>, \<open>get_current_user\<close>, \<open>get_current_admin\<close> and the admin handlers read
  it. A store state is reachable when registrations lead to it from a database whose
  \<open>users\<close> collection is empty.
\<close>

inductive reachable :: "env \<Rightarrow> database \<Rightarrow> bool" for E :: env where
  initial: "users db = [] \<Longrightarrow> reachable E db"
| registered:
    "reachable E db \<Longrightarrow> register_user E now salt oid user db = (db', outcome) \<Longrightarrow> reachable E db'"


section \<open>A concrete environment\<close>

text \<open>
  An environment to run the definitions in. Its digest is a stand-in of the right format
  (the characters of the secret that are in the alphabet, filled up with dots to 31
  characters); it only serves to execute registration and login on examples.
\<close>

definition toy_digest :: bcrypt_digest where
  "toy_digest ident cost salt secret =
     take 30 (filter (\<lambda>c. c \<in> set bcrypt64_chars) secret @ ''..............................'')
       @ ''.''"

definition toy_validate_email :: "string \<Rightarrow> string option" where
  "toy_validate_email s = (if CHR ''@'' \<in> set s then Some s else None)"

definition demo_env :: env where
  "demo_env =
     \<lparr>settings = default_settings ''k3y'',
      ADMIN_EMAIL = Some ''admin@x.com'',
      ADMIN_PASSWORD = Some ''adminpw'',
      pwd_digest = toy_digest,
      validate_email = toy_validate_email\<rparr>"

definition empty_db :: database where
  "empty_db = \<lparr>users = [], products = [], orders = [], contact_messages = []\<rparr>"

definition alice :: UserCreate where
  "alice = \<lparr>c_email = ''a@x.com'', c_password = ''pw123456'', c_first_name = ''Alice'',
            c_phone = ''0123456789''\<rparr>"

definition admin_user :: UserCreate where
  "admin_user = \<lparr>c_email = ''admin@x.com'', c_password = ''s3cret!!'', c_first_name = ''Root'',
                 c_phone = ''0987654321''\<rparr>"

definition demo_db :: database where
  \<comment> \<open>the store after \<open>alice\<close> and \<open>admin_user\<close> have registered\<close>
  "demo_db =
     \<lparr>users =
        [\<lparr>doc_id = Some ''oid1'',
          doc_fields =
            [(''email'', PStr ''a@x.com''),
             (''hashed_password'', PStr ''$2b$12$saltsaltsaltsaltsaltA.pw123456.......................''),
             (''first_name'', PStr ''Alice''),
             (''phone'', PStr ''0123456789''),
             (''created_at'', PDatetime 1000000)]\<rparr>,
         \<lparr>doc_id = Some ''oid2'',
          doc_fields =
            [(''email'', PStr ''admin@x.com''),
             (''hashed_password'', PStr ''$2b$12$saltsaltsaltsaltsaltBus3cret.........................''),
             (''first_name'', PStr ''Root''),
             (''phone'', PStr ''0987654321''),
             (''created_at'', PDatetime 2000000)]\<rparr>],
      products = [], orders = [], contact_messages = []\<rparr>"

definition long_password_x :: string where
  \<comment> \<open>72 times the letter a, then x\<close>
  "long_password_x = ''aaaaaaaaaaaaaaaaaaaaaaaaaaaaaaaaaaaaaaaaaaaaaaaaaaaaaaaaaaaaaaaaaaaaaaaax''"

definition long_password_y :: string where
  \<comment> \<open>72 times the letter a, then y\<close>
  "long_password_y = ''aaaaaaaaaaaaaaaaaaaaaaaaaaaaaaaaaaaaaaaaaaaaaaaaaaaaaaaaaaaaaaaaaaaaaaaay''"

definition alice_token :: token where
  \<comment> \<open>what \<open>login_user\<close> issues to \<open>alice\<close> at second 3\<close>
  "alice_token = JWS [(''sub'', PStr ''a@x.com''), (''exp'', PInt 86403)] ''k3y'' ''HS256''"

definition admin_user_token :: token where
  \<comment> \<open>what \<open>login_user\<close> issues to \<open>admin_user\<close> at second 3\<close>
  "admin_user_token = JWS [(''sub'', PStr ''admin@x.com''), (''exp'', PInt 86403)] ''k3y'' ''HS256''"

definition admin_token :: token where
  \<comment> \<open>what \<open>create_admin_token\<close> issues for \<open>admin@x.com\<close> at second 3\<close>
  "admin_token =
     JWS [(''sub'', PStr ''admin@x.com''), (''is_admin'', PBool True), (''exp'', PInt 86403)]
       ''k3y'' ''HS256''"


section \<open>Notions the properties are stated with\<close>


definition digest_wf :: "bcrypt_digest \<Rightarrow> bool" where
  \<comment> \<open>the digest is always 31 characters of the alphabet with clean padding bits, as
      bcrypt's is\<close>
  "digest_wf digest =
     (\<forall>ident cost salt secret.
        bcrypt64_string 31 (digest ident cost salt secret) \<and>
        repair_unused 4 (digest ident cost salt secret) = digest ident cost salt secret)"

definition drawn_salt :: "string \<Rightarrow> bool" where
  \<comment> \<open>a salt as the library draws it: 22 characters of the alphabet, padding bits clean\<close>
  "drawn_salt salt = (bcrypt64_string 22 salt \<and> repair_unused 16 salt = salt)"

definition accepted_secret :: "string \<Rightarrow> bool" where
  \<comment> \<open>a password the hasher does not refuse\<close>
  "accepted_secret p = (length p \<le> 4096 \<and> CHR 0x00 \<notin> set p)"

definition registered_claims :: "string list" where
  \<comment> \<open>the claims other than \<open>exp\<close> and \<open>sub\<close> that \<open>jwt_decode\<close> checks\<close>
  "registered_claims = [''iat'', ''nbf'', ''aud'', ''jti'', ''at_hash'']"

definition expiry :: "env \<Rightarrow> int \<Rightarrow> int option \<Rightarrow> int" where
  \<comment> \<open>\<open>now + ttl\<close>, the \<open>ttl\<close> defaulting to the configured number of minutes\<close>
  "expiry E now ttl =
     now + (case ttl of None \<Rightarrow> timedelta_minutes (jwt_expiration_time (settings E))
                      | Some d \<Rightarrow> d)"


section \<open>Unfolding rules\<close>

lemmas status_defs = HTTP_400_BAD_REQUEST_def HTTP_401_UNAUTHORIZED_def HTTP_403_FORBIDDEN_def
  HTTP_503_SERVICE_UNAVAILABLE_def

lemmas store_defs = find_one_def find_one_by_id_def insert_one_def field_str_def field_email_def
  field_created_at_def field_is_admin_def UserInDB_from_mongo_def UserResponse_from_mongo_def

lemmas int_defs = py_int_str_def py_strip_def py_isspace_def int_of_digits_def is_digit_def
  digit_val_def

lemmas claim_defs = int_claim_def validate_iat_def validate_nbf_def validate_exp_def
  validate_aud_def validate_str_def validate_at_hash_def validate_claims_def

lemmas jwt_defs = jwt_encode_def jwt_decode_def json_object_def claim_defs intDate_def
  timedelta_minutes_def dict_get_def

lemmas parse_defs = bcrypt_idents_def bcrypt64_chars_def bcrypt64_index_def bcrypt64_string_def
  repair_unused_def parse_ident_def split_dollar_def parse_rounds_def bcrypt_from_string_def
  is_digit_def digit_val_def

lemmas auth_defs = create_access_token_def verify_token_def
  get_current_user_def create_admin_token_def verify_admin_token_def get_current_admin_def
  credentials_exception_def user_not_found_def admin_exception_def opt_str_def

lemmas route_defs = with_current_user_def get_database_def GET_admin_dashboard_def
  GET_admin_verify_def get_dashboard_stats_def get_product_stats_def get_user_stats_def
  get_analytics_summary_def verify_admin_access_def is_true_def admin_access_required_def


section \<open>Properties\<close>

lemma find_one_field: "find_one coll k v = Some d \<Longrightarrow> map_of (doc_fields d) k = Some v"
  by (auto simp: find_one_def find_Some_iff)

lemma create_access_token_default:
  "create_access_token E now [(''sub'', PStr e)] None =
     Inr (JWS [(''sub'', PStr e),
               (''exp'', PInt (intDate (now + timedelta_minutes (jwt_expiration_time (settings E)))))]
            (jwt_secret_key (settings E)) (jwt_algorithm (settings E)))"
  by (simp add: create_access_token_def jwt_encode_def json_object_def)

lemma create_admin_token_eq:
  "create_admin_token E now e =
     Inr (JWS [(''sub'', PStr e), (''is_admin'', PBool True),
               (''exp'', PInt (intDate (now + timedelta_minutes (jwt_expiration_time (settings E)))))]
            (jwt_secret_key (settings E)) (jwt_algorithm (settings E)))"
  by (simp add: create_admin_token_def create_access_token_def jwt_encode_def json_object_def)

lemma login_token_shape:
  assumes "login_user E t0 creds db0 = Inr T"
  shows "access_token T =
           JWS [(''sub'', PStr (l_email creds)),
                (''exp'', PInt (intDate (t0 + timedelta_minutes (jwt_expiration_time (settings E)))))]
             (jwt_secret_key (settings E)) (jwt_algorithm (settings E))"
proof -
  from assms obtain user where
    found: "find_one (users db0) ''email'' (PStr (l_email creds)) = Some user"
    by (auto simp: login_user_def split: option.splits)
  then have em: "map_of (doc_fields user) ''email'' = Some (PStr (l_email creds))"
    by (rule find_one_field)
  from assms found em show ?thesis
    by (auto simp: login_user_def create_access_token_default split: option.splits sum.splits if_splits)
qed

lemma user_token_no_admin:
  "get_current_admin E now
     (JWS [(''sub'', PStr e), (''exp'', PInt x)] k a) = Inl admin_exception"
  by (simp add: get_current_admin_def verify_admin_token_def jwt_decode_def json_object_def
      claim_defs dict_get_def)

lemma admin_token_decode:
  "jwt_decode now
     (JWS [(''sub'', PStr e), (''is_admin'', PBool True), (''exp'', PInt x)]
        (jwt_secret_key (settings E)) (jwt_algorithm (settings E)))
     (jwt_secret_key (settings E)) [jwt_algorithm (settings E)] =
   (if x < intDate now then Inl (Jose ExpiredSignatureError)
    else Inr [(''sub'', PStr e), (''is_admin'', PBool True), (''exp'', PInt x)])"
  by (simp add: jwt_decode_def json_object_def claim_defs)












lemma verify_token_email:
  "verify_token E now tok = Inr td \<Longrightarrow> \<exists>e. td_email td = Some e"
  by (auto simp: verify_token_def split: sum.splits pyval.splits error.splits)

lemma get_current_user_verified:
  assumes "verify_token E now tok = Inr td" and "td_email td = Some e"
  shows "get_current_user E now tok db =
     (case find_one (users db) ''email'' (PStr e) of
        None \<Rightarrow> Inl user_not_found
      | Some user \<Rightarrow>
         (case UserInDB_from_mongo E now user of
            Inl err \<Rightarrow> Inl err
          | Inr u \<Rightarrow> Inr (u\<lparr>u_is_admin := Some (ADMIN_EMAIL E = Some e)\<rparr>)))"
proof (cases "find_one (users db) ''email'' (PStr e)")
  case None
  with assms show ?thesis
    by (simp add: get_current_user_def opt_str_def)
next
  case (Some user)
  then have "map_of (doc_fields user) ''email'' = Some (PStr e)"
    by (rule find_one_field)
  with assms Some show ?thesis
    by (cases "ADMIN_EMAIL E")
       (auto simp: get_current_user_def opt_str_def eq_commute [of e] split: sum.splits)
qed

text \<open>
  Claim C1, as amended. A token issued by the login path is rejected by \<open>get_current_admin\<close>
  at every time. A token issued by the admin path for the e-mail \<open>e\<close> is not rejected by
  \<open>get_current_user\<close> on account of its shape: until it expires, the outcome is that of the
  lookup of \<open>e\<close> in the store, a failure only when no user has that e-mail (or the stored
  document does not validate), and otherwise the user's principal.
\<close>

theorem token_paths:
  "(login_user E t0 creds db0 = Inr T \<longrightarrow>
      get_current_admin E now (access_token T) = Inl admin_exception) \<and>
   (create_admin_token E t0 e = Inr tok \<longrightarrow>
      get_current_user E now tok db =
        (if intDate (t0 + timedelta_minutes (jwt_expiration_time (settings E))) < intDate now
         then Inl credentials_exception
         else case find_one (users db) ''email'' (PStr e) of
                None \<Rightarrow> Inl user_not_found
              | Some user \<Rightarrow>
                 (case UserInDB_from_mongo E now user of
                    Inl err \<Rightarrow> Inl err
                  | Inr u \<Rightarrow> Inr (u\<lparr>u_is_admin := Some (ADMIN_EMAIL E = Some e)\<rparr>))))"
proof (intro conjI impI)
  assume "login_user E t0 creds db0 = Inr T"
  then show "get_current_admin E now (access_token T) = Inl admin_exception"
    by (simp add: login_token_shape user_token_no_admin)
next
  assume "create_admin_token E t0 e = Inr tok"
  then have tok: "tok = JWS [(''sub'', PStr e), (''is_admin'', PBool True),
               (''exp'', PInt (intDate (t0 + timedelta_minutes (jwt_expiration_time (settings E)))))]
            (jwt_secret_key (settings E)) (jwt_algorithm (settings E))"
    by (simp add: create_admin_token_eq)
  have vt: "verify_token E now tok =
      (if intDate (t0 + timedelta_minutes (jwt_expiration_time (settings E))) < intDate now
       then Inl credentials_exception else Inr \<lparr>td_email = Some e\<rparr>)"
    by (simp add: verify_token_def tok admin_token_decode dict_get_def)
  show "get_current_user E now tok db =
        (if intDate (t0 + timedelta_minutes (jwt_expiration_time (settings E))) < intDate now
         then Inl credentials_exception
         else case find_one (users db) ''email'' (PStr e) of
                None \<Rightarrow> Inl user_not_found
              | Some user \<Rightarrow>
                 (case UserInDB_from_mongo E now user of
                    Inl err \<Rightarrow> Inl err
                  | Inr u \<Rightarrow> Inr (u\<lparr>u_is_admin := Some (ADMIN_EMAIL E = Some e)\<rparr>)))"
  proof (cases "intDate (t0 + timedelta_minutes (jwt_expiration_time (settings E))) < intDate now")
    case True
    then show ?thesis by (simp add: get_current_user_def vt)
  next
    case False
    then have "verify_token E now tok = Inr \<lparr>td_email = Some e\<rparr>" by (simp add: vt)
    from get_current_user_verified [OF this] False show ?thesis by simp
  qed
qed

text \<open>
  The claim as stated fails: the token issued by the admin path for \<open>admin@x.com\<close> is
  accepted by \<open>get_current_user\<close> when a user with that e-mail has registered.
\<close>



lemma demo_env_simps:
  "settings demo_env = default_settings ''k3y''"
  "ADMIN_EMAIL demo_env = Some ''admin@x.com''"
  "ADMIN_PASSWORD demo_env = Some ''adminpw''"
  "pwd_digest demo_env = toy_digest"
  "validate_email demo_env = toy_validate_email"
  by (simp_all add: demo_env_def)

lemmas demo_defs = demo_env_simps default_settings_def toy_validate_email_def
  empty_db_def alice_def admin_user_def demo_db_def alice_token_def admin_user_token_def
  admin_token_def

lemma toy_digest_alice:
  "toy_digest ident cost salt ''pw123456'' = ''pw123456.......................''"
  by (simp add: toy_digest_def bcrypt64_chars_def)

lemma toy_digest_admin:
  "toy_digest ident cost salt ''s3cret!!'' = ''s3cret.........................''"
  by (simp add: toy_digest_def bcrypt64_chars_def)

lemma demo_hash_alice:
  "get_password_hash demo_env ''saltsaltsaltsaltsaltA.'' ''pw123456'' =
     Inr ''$2b$12$saltsaltsaltsaltsaltA.pw123456.......................''"
  by (simp add: get_password_hash_def CryptContext_hash_def bcrypt_hash_def demo_env_simps
      toy_digest_alice bcrypt64_string_def bcrypt64_chars_def repair_unused_def
      bcrypt64_index_def)

lemma demo_hash_admin:
  "get_password_hash demo_env ''saltsaltsaltsaltsaltBu'' ''s3cret!!'' =
     Inr ''$2b$12$saltsaltsaltsaltsaltBus3cret.........................''"
  by (simp add: get_password_hash_def CryptContext_hash_def bcrypt_hash_def demo_env_simps
      toy_digest_admin bcrypt64_string_def bcrypt64_chars_def repair_unused_def
      bcrypt64_index_def)

lemma demo_parse_alice:
  "bcrypt_from_string ''$2b$12$saltsaltsaltsaltsaltA.pw123456.......................'' =
     Some (''$2b$'', 12, ''saltsaltsaltsaltsaltA.'', ''pw123456.......................'')"
  by (simp add: parse_defs)

lemma demo_verify_alice:
  "verify_password demo_env ''pw123456''
     (PStr ''$2b$12$saltsaltsaltsaltsaltA.pw123456.......................'') = Inr True"
  by (simp add: verify_password_def CryptContext_verify_def bcrypt_identify_def
      bcrypt_idents_def bcrypt_verify_def demo_parse_alice demo_env_simps toy_digest_alice
      bcrypt64_string_def bcrypt64_chars_def)

lemma demo_register_alice:
  "register_user demo_env 1000000 ''saltsaltsaltsaltsaltA.'' ''oid1'' alice empty_db =
     (empty_db\<lparr>users := [hd (users demo_db)]\<rparr>,
      Inr \<lparr>r_id = Some ''oid1'', r_email = ''a@x.com'', r_first_name = ''Alice'',
           r_phone = ''0123456789'', r_created_at = 1000000, r_is_admin = Some False\<rparr>)"
  by (simp add: register_user_def demo_defs store_defs demo_hash_alice)

lemma demo_register_admin:
  "register_user demo_env 2000000 ''saltsaltsaltsaltsaltBu'' ''oid2'' admin_user
       (empty_db\<lparr>users := [hd (users demo_db)]\<rparr>) =
     (demo_db,
      Inr \<lparr>r_id = Some ''oid2'', r_email = ''admin@x.com'', r_first_name = ''Root'',
           r_phone = ''0987654321'', r_created_at = 2000000, r_is_admin = Some False\<rparr>)"
  by (simp add: register_user_def demo_defs store_defs demo_hash_admin)

lemma demo_login_alice:
  "login_user demo_env 3000000 \<lparr>l_email = ''a@x.com'', l_password = ''pw123456''\<rparr> demo_db =
     Inr \<lparr>access_token = alice_token, token_type = ''bearer''\<rparr>"
  by (simp add: login_user_def demo_defs store_defs demo_verify_alice auth_defs jwt_defs)

lemma demo_verify_alice_token:
  "verify_token demo_env 4000000 alice_token = Inr \<lparr>td_email = Some ''a@x.com''\<rparr>"
  by (simp add: demo_defs auth_defs jwt_defs)

lemma demo_verify_admin_user_token:
  "verify_token demo_env 4000000 admin_user_token = Inr \<lparr>td_email = Some ''admin@x.com''\<rparr>"
  by (simp add: demo_defs auth_defs jwt_defs)


lemma demo_current_user_admin:
  "get_current_user demo_env 4000000 admin_user_token demo_db =
     Inr \<lparr>u_id = Some ''oid2'', u_email = ''admin@x.com'', u_first_name = ''Root'',
          u_phone = ''0987654321'',
          u_hashed_password = ''$2b$12$saltsaltsaltsaltsaltBus3cret.........................'',
          u_created_at = 2000000, u_is_admin = Some True\<rparr>"
  by (simp add: demo_defs store_defs auth_defs jwt_defs)

text \<open>
  The claim as stated fails: the token issued by the admin path for \<open>admin@x.com\<close> is
  accepted by \<open>get_current_user\<close> when a user with that e-mail has registered.
\<close>

theorem token_paths_counterexample:
  "create_admin_token demo_env 3000000 ''admin@x.com'' = Inr admin_token \<and>
   get_current_user demo_env 4000000 admin_token demo_db =
     Inr \<lparr>u_id = Some ''oid2'', u_email = ''admin@x.com'', u_first_name = ''Root'',
          u_phone = ''0987654321'',
          u_hashed_password = ''$2b$12$saltsaltsaltsaltsaltBus3cret.........................'',
          u_created_at = 2000000, u_is_admin = Some True\<rparr>"
  by (simp add: demo_defs store_defs auth_defs jwt_defs)

theorem token_paths_witness:
  "login_user demo_env 3000000 \<lparr>l_email = ''a@x.com'', l_password = ''pw123456''\<rparr> demo_db =
     Inr \<lparr>access_token = alice_token, token_type = ''bearer''\<rparr> \<and>
   get_current_admin demo_env 4000000 alice_token = Inl admin_exception \<and>
   create_admin_token demo_env 3000000 ''admin@x.com'' = Inr admin_token \<and>
   get_current_user demo_env 4000000 admin_token empty_db = Inl user_not_found"
proof -
  have c: "create_admin_token demo_env 3000000 ''admin@x.com'' = Inr admin_token"
    by (simp add: demo_defs auth_defs jwt_defs)
  from demo_login_alice c token_paths [where E = demo_env and ?t0.0 = 3000000 and now = 4000000
      and creds = "\<lparr>l_email = ''a@x.com'', l_password = ''pw123456''\<rparr>" and ?db0.0 = demo_db
      and T = "\<lparr>access_token = alice_token, token_type = ''bearer''\<rparr>"
      and e = "''admin@x.com''" and tok = admin_token and db = empty_db]
  show ?thesis
    by (simp add: demo_defs store_defs jwt_defs)
qed



lemma current_user_is_admin:
  assumes "verify_token E now token = Inr td" and "get_current_user E now token db = Inr u"
  shows "u_is_admin u = Some (td_email td = ADMIN_EMAIL E)"
proof -
  from assms(1) obtain e where e: "td_email td = Some e"
    using verify_token_email by blast
  from assms(2) show ?thesis
    unfolding get_current_user_verified [OF assms(1) e]
    by (auto simp: e eq_commute [of "Some e"] split: option.splits sum.splits)
qed



lemma register_user_users:
  assumes "register_user E now salt oid user db = (db', res)"
  shows "users db' = users db \<or>
         (\<exists>hashed. users db' =
            users db @ [\<lparr>doc_id = Some oid,
                         doc_fields =
                           [(''email'', PStr (c_email user)), (''hashed_password'', PStr hashed),
                            (''first_name'', PStr (c_first_name user)),
                            (''phone'', PStr (c_phone user)),
                            (''created_at'', PDatetime now)]\<rparr>])"
  using assms
  by (auto simp: register_user_def insert_one_def Let_def split: option.splits sum.splits if_splits)

lemma register_user_success:
  assumes "register_user E now salt oid user db = (db', Inr r)"
  shows "\<exists>hashed. users db' =
            users db @ [\<lparr>doc_id = Some oid,
                         doc_fields =
                           [(''email'', PStr (c_email user)), (''hashed_password'', PStr hashed),
                            (''first_name'', PStr (c_first_name user)),
                            (''phone'', PStr (c_phone user)),
                            (''created_at'', PDatetime now)]\<rparr>]"
  using assms
  by (auto simp: register_user_def insert_one_def Let_def split: option.splits sum.splits if_splits)

lemma reachable_no_is_admin:
  "reachable E db \<Longrightarrow> \<forall>d \<in> set (users db). map_of (doc_fields d) ''is_admin'' = None"
proof (induction rule: reachable.induct)
  case (initial db)
  then show ?case by simp
next
  case (registered db now salt oid user db' outcome)
  from register_user_users [OF registered.hyps(2)] registered.IH show ?case
    by auto
qed

text \<open>
  Claim C4. A successful registration appends one document, which has no \<open>is_admin\<close>
  field; no document of a reachable store has one; and every principal
  \<open>get_current_user\<close> returns carries the \<open>is_admin\<close> computed in that call as the
  equality of the e-mail with the configured admin e-mail.
\<close>

theorem admin_status_not_stored:
  "(register_user E now salt oid user db = (db', Inr r) \<longrightarrow>
      (\<exists>doc. users db' = users db @ [doc] \<and> map_of (doc_fields doc) ''is_admin'' = None)) \<and>
   (reachable E db \<longrightarrow> (\<forall>d \<in> set (users db). map_of (doc_fields d) ''is_admin'' = None)) \<and>
   (verify_token E now token = Inr td \<and> get_current_user E now token db = Inr u \<longrightarrow>
      u_is_admin u = Some (td_email td = ADMIN_EMAIL E))"
proof (intro conjI impI)
  assume "register_user E now salt oid user db = (db', Inr r)"
  from register_user_success [OF this]
  show "\<exists>doc. users db' = users db @ [doc] \<and> map_of (doc_fields doc) ''is_admin'' = None"
    by auto
next
  assume "reachable E db"
  then show "\<forall>d \<in> set (users db). map_of (doc_fields d) ''is_admin'' = None"
    by (rule reachable_no_is_admin)
next
  assume "verify_token E now token = Inr td \<and> get_current_user E now token db = Inr u"
  then show "u_is_admin u = Some (td_email td = ADMIN_EMAIL E)"
    by (blast intro: current_user_is_admin)
qed

lemma demo_db_reachable: "reachable demo_env demo_db"
proof -
  have "reachable demo_env empty_db"
    by (rule reachable.initial) (simp add: empty_db_def)
  from reachable.registered [OF this demo_register_alice]
  have "reachable demo_env (empty_db\<lparr>users := [hd (users demo_db)]\<rparr>)" .
  from reachable.registered [OF this demo_register_admin]
  show ?thesis .
qed

theorem admin_status_not_stored_witness:
  "reachable demo_env demo_db \<and>
   list_all (\<lambda>d. map_of (doc_fields d) ''is_admin'' = None) (users demo_db) \<and>
   verify_token demo_env 4000000 admin_user_token = Inr \<lparr>td_email = Some ''admin@x.com''\<rparr> \<and>
   get_current_user demo_env 4000000 admin_user_token demo_db =
     Inr \<lparr>u_id = Some ''oid2'', u_email = ''admin@x.com'', u_first_name = ''Root'',
          u_phone = ''0987654321'',
          u_hashed_password = ''$2b$12$saltsaltsaltsaltsaltBus3cret.........................'',
          u_created_at = 2000000, u_is_admin = Some True\<rparr>"
proof -
  from demo_db_reachable demo_verify_admin_user_token demo_current_user_admin
    admin_status_not_stored [where E = demo_env and db = demo_db and now = 4000000
      and token = admin_user_token and td = "\<lparr>td_email = Some ''admin@x.com''\<rparr>"]
  show ?thesis
    by (simp add: list_all_iff)
qed

text \<open>
  Claim C5, as amended. For a token that verifies and whose e-mail is not in the store,
  \<open>get_current_user\<close> fails with status 401 and the detail \<open>User not found\<close>; for a token
  that \<open>jwt_decode\<close> refuses with a \<open>JWTError\<close> it fails with status 401 and the detail
  \<open>Could not validate credentials\<close>. The status and the header are the same, the detail
  is not.
\<close>

theorem absent_user_unauthorized:
  assumes "verify_token E now token = Inr td"
    and "find_one (users db) ''email'' (opt_str (td_email td)) = None"
  shows "get_current_user E now token db =
           Inl (HTTPException HTTP_401_UNAUTHORIZED ''User not found''
                  [(''WWW-Authenticate'', ''Bearer'')]) \<and>
         (\<forall>bad je.
            jwt_decode now bad (jwt_secret_key (settings E)) [jwt_algorithm (settings E)] =
              Inl (Jose je) \<longrightarrow>
            get_current_user E now bad db =
              Inl (HTTPException HTTP_401_UNAUTHORIZED ''Could not validate credentials''
                     [(''WWW-Authenticate'', ''Bearer'')]))"
  using assms
  by (simp add: get_current_user_def verify_token_def user_not_found_def
      credentials_exception_def)

theorem absent_user_unauthorized_witness:
  "verify_token demo_env 4000000 alice_token = Inr \<lparr>td_email = Some ''a@x.com''\<rparr> \<and>
   find_one (users empty_db) ''email'' (PStr ''a@x.com'') = None \<and>
   get_current_user demo_env 4000000 alice_token empty_db =
     Inl (HTTPException 401 ''User not found'' [(''WWW-Authenticate'', ''Bearer'')])"
proof -
  have f: "find_one (users empty_db) ''email''
      (opt_str (td_email \<lparr>td_email = Some ''a@x.com''\<rparr>)) = None"
    by (simp add: empty_db_def find_one_def)
  from absent_user_unauthorized [OF demo_verify_alice_token f] demo_verify_alice_token f
  show ?thesis
    by (simp add: status_defs opt_str_def)
qed

text \<open>
  The claim as stated fails: what the caller receives for an unknown user differs from what
  it receives for a bad token.
\<close>

theorem absent_user_distinguished:
  "get_current_user demo_env 4000000 alice_token empty_db =
     Inl (HTTPException 401 ''User not found'' [(''WWW-Authenticate'', ''Bearer'')]) \<and>
   get_current_user demo_env 4000000 (Opaque ''garbage'') empty_db =
     Inl (HTTPException 401 ''Could not validate credentials'' [(''WWW-Authenticate'', ''Bearer'')]) \<and>
   get_current_user demo_env 4000000 alice_token empty_db \<noteq>
     get_current_user demo_env 4000000 (Opaque ''garbage'') empty_db"
  by (simp add: demo_defs store_defs auth_defs jwt_defs status_defs)

text \<open>
  Issuing and verifying. For a time to live that is absent or not zero and claims with a
  string subject and none of the other registered claims, the token carries the expiry
  \<open>now + ttl\<close> in whole seconds, and \<open>verify_token\<close> returns the subject at any time up
  to it.
\<close>

lemma map_of_time_claim:
  "map_of (map time_claim d) k = map_option (\<lambda>v. snd (time_claim (k, v))) (map_of d k)"
proof (induction d)
  case Nil
  then show ?case by simp
next
  case (Cons kv d)
  obtain k' v where kv: "kv = (k', v)" by (cases kv)
  show ?case
    by (cases v) (simp_all add: kv Cons.IH)
qed

lemma issue_then_verify:
  assumes issued: "create_access_token E now data ttl = Inr tok"
    and nonzero: "ttl \<noteq> Some 0"
    and subject: "map_of data ''sub'' = Some (PStr e)"
    and others: "\<forall>k \<in> set registered_claims. map_of data k = None"
    and in_time: "t \<le> expiry E now ttl"
  shows "\<exists>claims. tok = JWS claims (jwt_secret_key (settings E)) (jwt_algorithm (settings E)) \<and>
           map_of claims ''exp'' = Some (PInt (intDate (expiry E now ttl))) \<and>
           verify_token E t tok = Inr \<lparr>td_email = Some e\<rparr>"
proof -
  define claims where
    "claims = map time_claim (AList.update ''exp'' (PDatetime (expiry E now ttl)) data)"
  have enc: "jwt_encode (AList.update ''exp'' (PDatetime (expiry E now ttl)) data)
      (jwt_secret_key (settings E)) (jwt_algorithm (settings E)) = Inr tok"
    using issued nonzero
    by (cases ttl) (auto simp: create_access_token_def expiry_def Let_def split: if_splits)
  then have tok: "tok = JWS claims (jwt_secret_key (settings E)) (jwt_algorithm (settings E))"
    and json: "json_object claims"
    by (auto simp: jwt_encode_def claims_def Let_def split: if_splits)
  have exp: "map_of claims ''exp'' = Some (PInt (intDate (expiry E now ttl)))"
    by (simp add: claims_def map_of_time_claim update_conv')
  have sub: "map_of claims ''sub'' = Some (PStr e)"
    by (simp add: claims_def map_of_time_claim update_conv' subject)
  have none: "map_of claims ''iat'' = None" "map_of claims ''nbf'' = None"
    "map_of claims ''aud'' = None" "map_of claims ''jti'' = None"
    "map_of claims ''at_hash'' = None"
    using others by (simp_all add: claims_def map_of_time_claim update_conv' registered_claims_def)
  have "intDate t \<le> intDate (expiry E now ttl)"
    using in_time by (simp add: intDate_def zdiv_mono1)
  then have "validate_claims t claims = None"
    by (simp add: claim_defs exp sub none)
  then have "verify_token E t tok = Inr \<lparr>td_email = Some e\<rparr>"
    by (simp add: verify_token_def jwt_decode_def tok json sub dict_get_def)
  with tok exp show ?thesis by blast
qed

text \<open>
  Claim C6 fails for a time to live of zero: \<open>if expires_delta:\<close> is false for
  \<open>timedelta(0)\<close>, so the token issued at second 1 expires at second 86401, after the
  default 1440 minutes, instead of at second 1, and it still verifies four seconds later.
\<close>

theorem zero_ttl_uses_default:
  "create_access_token demo_env 1000000 [(''sub'', PStr ''a@x.com'')] (Some 0) =
     Inr (JWS [(''sub'', PStr ''a@x.com''), (''exp'', PInt 86401)] ''k3y'' ''HS256'') \<and>
   intDate (1000000 + 0) = 1 \<and>
   verify_token demo_env 5000000
     (JWS [(''sub'', PStr ''a@x.com''), (''exp'', PInt 86401)] ''k3y'' ''HS256'') =
     Inr \<lparr>td_email = Some ''a@x.com''\<rparr>"
  by (simp add: demo_defs auth_defs jwt_defs)

lemma bcrypt64_no_dollar:
  assumes "bcrypt64_string n s"
  shows "CHR ''$'' \<notin> set s"
proof -
  have "CHR ''$'' \<notin> set bcrypt64_chars"
    by (simp add: bcrypt64_chars_def)
  moreover from assms have "set s \<subseteq> set bcrypt64_chars"
    by (auto simp: bcrypt64_string_def list_all_iff)
  ultimately show ?thesis by blast
qed

lemma parse_new_hash:
  assumes "bcrypt64_string 22 salt" and "bcrypt64_string 31 d"
  shows "bcrypt_from_string (''$2b$12$'' @ salt @ d) =
           Some (''$2b$'', 12, repair_unused 16 salt, repair_unused 4 d)"
proof -
  from assms have len: "length salt = 22" "length d = 31"
    by (simp_all add: bcrypt64_string_def)
  from assms have nd: "CHR ''$'' \<notin> set salt" "CHR ''$'' \<notin> set d"
    by (simp_all add: bcrypt64_no_dollar)
  have ident: "parse_ident (''$2b$12$'' @ salt @ d) = Some (''$2b$'', ''12$'' @ salt @ d)"
    by (simp add: parse_ident_def bcrypt_idents_def)
  have split: "split_dollar (''12$'' @ salt @ d) = Some (''12'', salt @ d)"
    using nd by (simp add: split_dollar_def)
  have rounds: "parse_rounds ''12'' = Some 12"
    by (simp add: parse_rounds_def is_digit_def digit_val_def)
  show ?thesis
    using assms len ident split rounds by (simp add: bcrypt_from_string_def)
qed

lemma hash_new:
  assumes "digest_wf (pwd_digest E)" and "drawn_salt salt" and "accepted_secret p"
  shows "get_password_hash E salt p =
           Inr (''$2b$12$'' @ salt @ pwd_digest E ''$2b$'' 12 salt (take 72 p))"
  using assms
  by (simp add: get_password_hash_def CryptContext_hash_def bcrypt_hash_def digest_wf_def
      drawn_salt_def accepted_secret_def)

lemma verify_new:
  assumes wf: "digest_wf (pwd_digest E)" and salt: "drawn_salt salt" and p': "accepted_secret p'"
  shows "verify_password E p'
           (PStr (''$2b$12$'' @ salt @ pwd_digest E ''$2b$'' 12 salt (take 72 p))) =
         Inr (pwd_digest E ''$2b$'' 12 salt (take 72 p') =
              pwd_digest E ''$2b$'' 12 salt (take 72 p))"
proof -
  let ?d = "pwd_digest E ''$2b$'' 12 salt (take 72 p)"
  from wf have d: "bcrypt64_string 31 ?d" "repair_unused 4 ?d = ?d"
    and d': "bcrypt64_string 31 (pwd_digest E ''$2b$'' 12 salt (take 72 p'))"
    by (simp_all add: digest_wf_def)
  from salt have s: "bcrypt64_string 22 salt" "repair_unused 16 salt = salt"
    by (simp_all add: drawn_salt_def)
  have parse: "bcrypt_from_string (''$2b$12$'' @ salt @ ?d) = Some (''$2b$'', 12, salt, ?d)"
    using parse_new_hash [OF s(1) d(1)] by (simp add: s(2) d(2))
  have ident: "bcrypt_identify (''$2b$12$'' @ salt @ ?d)"
    by (simp add: bcrypt_identify_def bcrypt_idents_def)
  from p' ident parse d' show ?thesis
    by (simp add: verify_password_def CryptContext_verify_def bcrypt_verify_def
        accepted_secret_def)
qed

text \<open>
  Claim C7, as amended. For a password the hasher accepts and any salt it draws,
  \<open>get_password_hash\<close> returns a hash that \<open>verify_password\<close> accepts for that
  password. Another accepted password verifies against it exactly when bcrypt's digests of
  the first 72 bytes of the two passwords agree, so it does whenever the two passwords
  agree on their first 72 bytes. Under a different salt the hash of the same password is a
  different string, and it verifies too.
\<close>

theorem hasher_round_trip:
  assumes "digest_wf (pwd_digest E)" and "drawn_salt salt" and "accepted_secret p"
  shows "\<exists>h. get_password_hash E salt p = Inr h \<and>
           verify_password E p (PStr h) = Inr True \<and>
           (\<forall>p'. accepted_secret p' \<longrightarrow>
              verify_password E p' (PStr h) =
                Inr (pwd_digest E ''$2b$'' 12 salt (take 72 p') =
                     pwd_digest E ''$2b$'' 12 salt (take 72 p))) \<and>
           (\<forall>p'. accepted_secret p' \<and> take 72 p' = take 72 p \<longrightarrow>
              verify_password E p' (PStr h) = Inr True) \<and>
           (\<forall>salt'. drawn_salt salt' \<and> salt' \<noteq> salt \<longrightarrow>
              (\<exists>h'. get_password_hash E salt' p = Inr h' \<and> h' \<noteq> h \<and>
                    verify_password E p (PStr h') = Inr True))"
proof -
  let ?h = "\<lambda>s. ''$2b$12$'' @ s @ pwd_digest E ''$2b$'' 12 s (take 72 p)"
  have other: "get_password_hash E salt' p = Inr (?h salt') \<and> ?h salt' \<noteq> ?h salt \<and>
      verify_password E p (PStr (?h salt')) = Inr True"
    if "drawn_salt salt'" and "salt' \<noteq> salt" for salt'
  proof -
    from that(1) assms(2) have "length salt' = length salt"
      by (simp add: drawn_salt_def bcrypt64_string_def)
    with that(2) have "?h salt' \<noteq> ?h salt" by simp
    with hash_new [OF assms(1) that(1) assms(3)] verify_new [OF assms(1) that(1) assms(3), of p]
    show ?thesis by simp
  qed
  have "get_password_hash E salt p = Inr (?h salt)"
    by (rule hash_new [OF assms])
  moreover have "verify_password E p (PStr (?h salt)) = Inr True"
    using verify_new [OF assms(1,2) assms(3), of p] by simp
  moreover have "verify_password E p' (PStr (?h salt)) =
      Inr (pwd_digest E ''$2b$'' 12 salt (take 72 p') = pwd_digest E ''$2b$'' 12 salt (take 72 p))"
    if "accepted_secret p'" for p'
    by (rule verify_new [OF assms(1,2) that])
  moreover have "verify_password E p' (PStr (?h salt)) = Inr True"
    if "accepted_secret p' \<and> take 72 p' = take 72 p" for p'
    using verify_new [OF assms(1,2), of p' p] that by simp
  moreover have "\<exists>h'. get_password_hash E salt' p = Inr h' \<and> h' \<noteq> ?h salt \<and>
      verify_password E p (PStr h') = Inr True"
    if "drawn_salt salt' \<and> salt' \<noteq> salt" for salt'
    using other [of salt'] that by blast
  ultimately show ?thesis
    by blast
qed

lemma toy_digest_wf: "digest_wf toy_digest"
proof -
  have "bcrypt64_string 31 (toy_digest i c s p)" for i c s p
    by (auto simp: toy_digest_def bcrypt64_string_def list_all_iff bcrypt64_chars_def
        dest!: in_set_takeD)
  moreover have "repair_unused 4 (toy_digest i c s p) = toy_digest i c s p" for i c s p
    by (simp add: toy_digest_def repair_unused_def bcrypt64_index_def bcrypt64_chars_def)
  ultimately show ?thesis
    by (simp add: digest_wf_def)
qed

lemma demo_salts: "drawn_salt ''saltsaltsaltsaltsaltA.''" "drawn_salt ''saltsaltsaltsaltsaltBu''"
  by (simp_all add: drawn_salt_def bcrypt64_string_def bcrypt64_chars_def repair_unused_def
      bcrypt64_index_def)

theorem hasher_round_trip_witness:
  "digest_wf (pwd_digest demo_env) \<and> drawn_salt ''saltsaltsaltsaltsaltA.'' \<and>
   accepted_secret ''pw123456'' \<and>
   get_password_hash demo_env ''saltsaltsaltsaltsaltA.'' ''pw123456'' =
     Inr ''$2b$12$saltsaltsaltsaltsaltA.pw123456.......................'' \<and>
   verify_password demo_env ''pw123456''
     (PStr ''$2b$12$saltsaltsaltsaltsaltA.pw123456.......................'') = Inr True \<and>
   get_password_hash demo_env ''saltsaltsaltsaltsaltBu'' ''pw123456'' =
     Inr ''$2b$12$saltsaltsaltsaltsaltBupw123456.......................'' \<and>
   verify_password demo_env ''pw123456''
     (PStr ''$2b$12$saltsaltsaltsaltsaltBupw123456.......................'') = Inr True"
proof -
  have wf: "digest_wf (pwd_digest demo_env)"
    by (simp add: demo_env_simps toy_digest_wf)
  have p: "accepted_secret ''pw123456''"
    by (simp add: accepted_secret_def)
  have h2: "get_password_hash demo_env ''saltsaltsaltsaltsaltBu'' ''pw123456'' =
     Inr ''$2b$12$saltsaltsaltsaltsaltBupw123456.......................''"
    using hash_new [OF wf demo_salts(2) p] by (simp add: demo_env_simps toy_digest_alice)
  from hasher_round_trip [OF wf demo_salts(1) p] demo_hash_alice h2 wf demo_salts p
  show ?thesis
    by auto
qed

text \<open>
  The claim as stated fails: a password with a NUL byte has no hash, since the hasher
  refuses it, and two different passwords of 73 bytes that share their first 72 bytes
  verify against each other's hash.
\<close>

theorem hasher_truncates:
  "get_password_hash demo_env ''saltsaltsaltsaltsaltA.'' [CHR ''p'', CHR 0x00, CHR ''w''] =
     Inl ValueError \<and>
   long_password_x \<noteq> long_password_y \<and>
   get_password_hash demo_env ''saltsaltsaltsaltsaltA.'' long_password_y =
     Inr ''$2b$12$saltsaltsaltsaltsaltA.aaaaaaaaaaaaaaaaaaaaaaaaaaaaaa.'' \<and>
   verify_password demo_env long_password_x
     (PStr ''$2b$12$saltsaltsaltsaltsaltA.aaaaaaaaaaaaaaaaaaaaaaaaaaaaaa.'') = Inr True"
proof -
  have t: "take 72 long_password_x = ''aaaaaaaaaaaaaaaaaaaaaaaaaaaaaaaaaaaaaaaaaaaaaaaaaaaaaaaaaaaaaaaaaaaaaaaa''" "take 72 long_password_y = ''aaaaaaaaaaaaaaaaaaaaaaaaaaaaaaaaaaaaaaaaaaaaaaaaaaaaaaaaaaaaaaaaaaaaaaaa''"
    by (simp_all add: long_password_x_def long_password_y_def)
  have a: "accepted_secret long_password_x" "accepted_secret long_password_y"
    by (simp_all add: accepted_secret_def long_password_x_def long_password_y_def)
  have wf: "digest_wf (pwd_digest demo_env)"
    by (simp add: demo_env_simps toy_digest_wf)
  have d: "toy_digest ''$2b$'' 12 ''saltsaltsaltsaltsaltA.'' ''aaaaaaaaaaaaaaaaaaaaaaaaaaaaaaaaaaaaaaaaaaaaaaaaaaaaaaaaaaaaaaaaaaaaaaaa'' =
      ''aaaaaaaaaaaaaaaaaaaaaaaaaaaaaa.''"
    by (simp add: toy_digest_def bcrypt64_chars_def)
  have ne: "long_password_x \<noteq> long_password_y"
    by (simp add: long_password_x_def long_password_y_def)
  from hash_new [OF wf demo_salts(1) a(2)]
  have h: "get_password_hash demo_env ''saltsaltsaltsaltsaltA.'' long_password_y =
     Inr ''$2b$12$saltsaltsaltsaltsaltA.aaaaaaaaaaaaaaaaaaaaaaaaaaaaaa.''"
    by (simp add: demo_env_simps t d)
  from verify_new [OF wf demo_salts(1) a(1), of long_password_y]
  have "verify_password demo_env long_password_x
     (PStr ''$2b$12$saltsaltsaltsaltsaltA.aaaaaaaaaaaaaaaaaaaaaaaaaaaaaa.'') = Inr True"
    by (simp add: demo_env_simps t d)
  moreover have "get_password_hash demo_env ''saltsaltsaltsaltsaltA.''
      [CHR ''p'', CHR 0x00, CHR ''w''] = Inl ValueError"
    by (simp add: get_password_hash_def CryptContext_hash_def bcrypt_hash_def
        bcrypt64_string_def bcrypt64_chars_def)
  ultimately show ?thesis using ne h by simp
qed

text \<open>
  Claim C8, as amended. For every password and every string that is not a well-formed
  bcrypt hash, \<open>verify_password\<close> raises and does not return \<open>False\<close>: \<open>UnknownHashError\<close>
  when the string starts with no bcrypt identifier, \<open>ValueError\<close> when it does. Nothing in
  \<open>verify_password\<close> catches the exception.
\<close>

theorem verify_password_malformed:
  assumes "bcrypt_from_string h = None"
  shows "verify_password E p (PStr h) =
           Inl (if bcrypt_identify h then ValueError else UnknownHashError)"
  using assms
  by (simp add: verify_password_def CryptContext_verify_def bcrypt_verify_def)

theorem verify_password_malformed_witness:
  "bcrypt_from_string ''not-a-hash'' = None \<and>
   verify_password demo_env ''pw123456'' (PStr ''not-a-hash'') = Inl UnknownHashError \<and>
   bcrypt_from_string '''' = None \<and>
   verify_password demo_env ''pw123456'' (PStr '''') = Inl UnknownHashError \<and>
   bcrypt_from_string ''$2b$'' = None \<and>
   verify_password demo_env ''pw123456'' (PStr ''$2b$'') = Inl ValueError \<and>
   bcrypt_from_string ''$2b$12$saltsaltsaltsaltsaltA.tooshort'' = None \<and>
   verify_password demo_env ''pw123456'' (PStr ''$2b$12$saltsaltsaltsaltsaltA.tooshort'') =
     Inl ValueError"
proof -
  have n1: "bcrypt_from_string ''not-a-hash'' = None"
    and n2: "bcrypt_from_string '''' = None"
    and n3: "bcrypt_from_string ''$2b$'' = None"
    and n4: "bcrypt_from_string ''$2b$12$saltsaltsaltsaltsaltA.tooshort'' = None"
    by (simp_all add: parse_defs)
  have i: "\<not> bcrypt_identify ''not-a-hash''" "\<not> bcrypt_identify ''''"
    "bcrypt_identify ''$2b$''" "bcrypt_identify ''$2b$12$saltsaltsaltsaltsaltA.tooshort''"
    by (simp_all add: bcrypt_identify_def bcrypt_idents_def)
  from verify_password_malformed [OF n1, of demo_env "''pw123456''"]
       verify_password_malformed [OF n2, of demo_env "''pw123456''"]
       verify_password_malformed [OF n3, of demo_env "''pw123456''"]
       verify_password_malformed [OF n4, of demo_env "''pw123456''"]
       n1 n2 n3 n4 i
  show ?thesis
    by simp
qed

text \<open>
  The claim as stated fails: on the malformed hash \<open>not-a-hash\<close> the call raises.
\<close>

theorem verify_password_raises:
  "verify_password demo_env ''pw123456'' (PStr ''not-a-hash'') = Inl UnknownHashError \<and>
   verify_password demo_env ''pw123456'' (PStr ''not-a-hash'') \<noteq> Inr False"
  by (simp add: verify_password_def CryptContext_verify_def bcrypt_identify_def
      bcrypt_idents_def)

text \<open>
  Claim C9. With \<open>ADMIN_EMAIL\<close> unset, every principal \<open>get_current_user\<close> returns has
  \<open>is_admin = False\<close>, each of the five handlers that check it fails with 403 Forbidden, and
  no request to the dashboard or to the admin verification succeeds.
\<close>

theorem no_admin_email_configured:
  assumes "ADMIN_EMAIL E = None"
  shows "(get_current_user E now token db = Inr u \<longrightarrow>
            u_is_admin u = Some False \<and>
            verify_admin_access u = Inl admin_access_required \<and>
            get_dashboard_stats st now u db = Inl admin_access_required \<and>
            get_product_stats st now u db = Inl admin_access_required \<and>
            get_user_stats st now u db = Inl admin_access_required \<and>
            get_analytics_summary st now u db = Inl admin_access_required \<and>
            GET_admin_dashboard E st now token (Some db) = Inl admin_access_required \<and>
            GET_admin_verify E now token (Some db) = Inl admin_access_required) \<and>
         (\<forall>r. GET_admin_dashboard E st now token mongodb \<noteq> Inr r) \<and>
         (\<forall>r. GET_admin_verify E now token mongodb \<noteq> Inr r) \<and>
         status_code admin_access_required = Some HTTP_403_FORBIDDEN"
proof -
  have adm: "u_is_admin u' = Some False" if "get_current_user E now token db' = Inr u'" for u' db'
  proof -
    from that obtain td where td: "verify_token E now token = Inr td"
      by (auto simp: get_current_user_def split: sum.splits)
    then obtain e where "td_email td = Some e"
      using verify_token_email by blast
    with current_user_is_admin [OF td that] assms show ?thesis by simp
  qed
  show ?thesis
    by (auto simp: route_defs dest: adm split: sum.splits option.splits)
qed

theorem no_admin_email_configured_witness:
  "ADMIN_EMAIL (demo_env\<lparr>ADMIN_EMAIL := None\<rparr>) = None \<and>
   get_current_user (demo_env\<lparr>ADMIN_EMAIL := None\<rparr>) 4000000 admin_user_token demo_db =
     Inr \<lparr>u_id = Some ''oid2'', u_email = ''admin@x.com'', u_first_name = ''Root'',
          u_phone = ''0987654321'',
          u_hashed_password = ''$2b$12$saltsaltsaltsaltsaltBus3cret.........................'',
          u_created_at = 2000000, u_is_admin = Some False\<rparr> \<and>
   GET_admin_dashboard (demo_env\<lparr>ADMIN_EMAIL := None\<rparr>) (\<lambda>now db. Inr (length (users db)))
     4000000 admin_user_token (Some demo_db) =
     Inl (HTTPException 403 ''Admin access required'' [])"
proof -
  have a: "ADMIN_EMAIL (demo_env\<lparr>ADMIN_EMAIL := None\<rparr>) = None"
    by simp
  have u: "get_current_user (demo_env\<lparr>ADMIN_EMAIL := None\<rparr>) 4000000 admin_user_token demo_db =
     Inr \<lparr>u_id = Some ''oid2'', u_email = ''admin@x.com'', u_first_name = ''Root'',
          u_phone = ''0987654321'',
          u_hashed_password = ''$2b$12$saltsaltsaltsaltsaltBus3cret.........................'',
          u_created_at = 2000000, u_is_admin = Some False\<rparr>"
    by (simp add: demo_defs store_defs auth_defs jwt_defs)
  from no_admin_email_configured [OF a, where now = 4000000 and token = admin_user_token
      and db = demo_db and st = "\<lambda>now db. Inr (length (users db))"] u a
  show ?thesis
    by (simp add: admin_access_required_def status_defs)
qed

text \<open>
  Claim C10, as amended. For a token that \<open>jwt_decode\<close> accepts, with a subject other than
  \<open>None\<close> and an \<open>is_admin\<close> claim of any true value, \<open>get_current_admin\<close> succeeds and
  returns the subject and the claim's value as they are in the payload. In particular it
  does for a token signed with the configured key and algorithm whose claims are a string
  subject, a true \<open>is_admin\<close> of any JSON type and an expiry not yet passed.
\<close>

theorem admin_claim_passthrough:
  "(jwt_decode now token (jwt_secret_key (settings E)) [jwt_algorithm (settings E)] = Inr payload \<and>
    map_of payload ''sub'' = Some s \<and> s \<noteq> PNone \<and>
    map_of payload ''is_admin'' = Some v \<and> truthy v \<longrightarrow>
      get_current_admin E now token = Inr [(''email'', s), (''is_admin'', v)]) \<and>
   (truthy v \<and> json_serialisable v \<and> intDate now \<le> x \<longrightarrow>
      get_current_admin E now
        (JWS [(''sub'', PStr e), (''is_admin'', v), (''exp'', PInt x)]
           (jwt_secret_key (settings E)) (jwt_algorithm (settings E))) =
        Inr [(''email'', PStr e), (''is_admin'', v)])"
  by (auto simp: get_current_admin_def verify_admin_token_def dict_get_def jwt_decode_def
      json_object_def claim_defs)

theorem admin_claim_passthrough_witness:
  "get_current_admin demo_env 4000000
     (JWS [(''sub'', PStr ''admin@x.com''), (''is_admin'', PInt 1), (''exp'', PInt 86403)]
        ''k3y'' ''HS256'') =
     Inr [(''email'', PStr ''admin@x.com''), (''is_admin'', PInt 1)] \<and>
   get_current_admin demo_env 4000000
     (JWS [(''sub'', PStr ''admin@x.com''), (''is_admin'', PStr ''yes''), (''exp'', PInt 86403)]
        ''k3y'' ''HS256'') =
     Inr [(''email'', PStr ''admin@x.com''), (''is_admin'', PStr ''yes'')]"
proof -
  have d: "jwt_decode 4000000
      (JWS [(''sub'', PStr ''admin@x.com''), (''is_admin'', PInt 1), (''exp'', PInt 86403)]
        ''k3y'' ''HS256'')
      (jwt_secret_key (settings demo_env)) [jwt_algorithm (settings demo_env)] =
      Inr [(''sub'', PStr ''admin@x.com''), (''is_admin'', PInt 1), (''exp'', PInt 86403)]"
    by (simp add: demo_defs jwt_defs)
  from d admin_claim_passthrough [where E = demo_env and now = 4000000
      and token = "JWS [(''sub'', PStr ''admin@x.com''), (''is_admin'', PInt 1),
                        (''exp'', PInt 86403)] ''k3y'' ''HS256''"
      and payload = "[(''sub'', PStr ''admin@x.com''), (''is_admin'', PInt 1), (''exp'', PInt 86403)]"
      and s = "PStr ''admin@x.com''" and v = "PInt 1"]
    admin_claim_passthrough [where E = demo_env and now = 4000000 and v = "PStr ''yes''"
      and x = 86403 and e = "''admin@x.com''"]
  show ?thesis
    by (simp add: demo_defs intDate_def)
qed

text \<open>
  The claim as stated fails: a token that is validly signed and not expired, with the
  subject 7 and \<open>is_admin\<close> true, is refused, because \<open>jwt_decode\<close> requires the subject
  to be a string.
\<close>

theorem admin_claim_numeric_subject:
  "jwt_secret_key (settings demo_env) = ''k3y'' \<and> jwt_algorithm (settings demo_env) = ''HS256'' \<and>
   intDate 4000000 \<le> 86403 \<and> PInt 7 \<noteq> PNone \<and> truthy (PBool True) \<and>
   get_current_admin demo_env 4000000
     (JWS [(''sub'', PInt 7), (''is_admin'', PBool True), (''exp'', PInt 86403)]
        ''k3y'' ''HS256'') =
     Inl (HTTPException 401 ''Admin access required'' [(''WWW-Authenticate'', ''Bearer'')])"
  by (simp add: demo_defs auth_defs jwt_defs status_defs)

end
